theory Spec2Isabelle
  imports Complex_Main
begin

text \<open>
  A model of the preference compatibility engine of the matching system: the deal-breaker
  filter, the sub-factor and category scorers and the compatibility aggregator of the
  preference filtering service, and the threshold gate, the ranking and the validation of
  the criteria of the matching service. Each definition follows the source function of the
  same name; the properties come after the definitions.
\<close>

section \<open>JavaScript numbers\<close>

text \<open>
  The preference engine computes with JavaScript numbers. They are modelled as exact reals
  extended with the three special values a division can produce: \<open>NaN\<close>, \<open>Infinity\<close> and
  \<open>-Infinity\<close>. Rounding to 64-bit doubles and the sign of zero are not modelled: finite
  arithmetic is exact, and a zero divisor counts as \<open>+0\<close>.
\<close>

datatype jsnum = Fin real | PInf | NInf | NaN

fun js_add :: "jsnum \<Rightarrow> jsnum \<Rightarrow> jsnum" where
  "js_add NaN _ = NaN"
| "js_add _ NaN = NaN"
| "js_add PInf NInf = NaN"
| "js_add NInf PInf = NaN"
| "js_add PInf _ = PInf"
| "js_add _ PInf = PInf"
| "js_add NInf _ = NInf"
| "js_add _ NInf = NInf"
| "js_add (Fin a) (Fin b) = Fin (a + b)"

definition inf_of_sign :: "bool \<Rightarrow> jsnum" where
  "inf_of_sign positive = (if positive then PInf else NInf)"

fun js_mul :: "jsnum \<Rightarrow> jsnum \<Rightarrow> jsnum" where
  "js_mul NaN _ = NaN"
| "js_mul _ NaN = NaN"
| "js_mul (Fin a) (Fin b) = Fin (a * b)"
| "js_mul (Fin a) PInf = (if a = 0 then NaN else inf_of_sign (0 < a))"
| "js_mul (Fin a) NInf = (if a = 0 then NaN else inf_of_sign (a < 0))"
| "js_mul PInf (Fin b) = (if b = 0 then NaN else inf_of_sign (0 < b))"
| "js_mul NInf (Fin b) = (if b = 0 then NaN else inf_of_sign (b < 0))"
| "js_mul PInf PInf = PInf"
| "js_mul NInf NInf = PInf"
| "js_mul PInf NInf = NInf"
| "js_mul NInf PInf = NInf"

fun js_div :: "jsnum \<Rightarrow> jsnum \<Rightarrow> jsnum" where
  "js_div NaN _ = NaN"
| "js_div _ NaN = NaN"
| "js_div (Fin a) (Fin b) =
     (if b = 0 then (if a = 0 then NaN else inf_of_sign (0 < a)) else Fin (a / b))"
| "js_div (Fin a) PInf = Fin 0"
| "js_div (Fin a) NInf = Fin 0"
| "js_div PInf (Fin b) = inf_of_sign (0 \<le> b)"
| "js_div NInf (Fin b) = inf_of_sign (b < 0)"
| "js_div PInf PInf = NaN"
| "js_div PInf NInf = NaN"
| "js_div NInf PInf = NaN"
| "js_div NInf NInf = NaN"

text \<open>The comparison \<open>a < b\<close>: false as soon as one side is \<open>NaN\<close>.\<close>

fun js_lt :: "jsnum \<Rightarrow> jsnum \<Rightarrow> bool" where
  "js_lt (Fin a) (Fin b) = (a < b)"
| "js_lt (Fin a) PInf = True"
| "js_lt NInf (Fin b) = True"
| "js_lt NInf PInf = True"
| "js_lt _ _ = False"

text \<open>Truthiness of a number: \<open>0\<close> and \<open>NaN\<close> are falsy.\<close>

fun js_truthy :: "jsnum \<Rightarrow> bool" where
  "js_truthy (Fin a) = (a \<noteq> 0)"
| "js_truthy NaN = False"
| "js_truthy _ = True"

text \<open>\<open>Math.pow(x, 1/4)\<close>, the only power the engine takes.\<close>

fun Math_pow_quarter :: "jsnum \<Rightarrow> jsnum" where
  "Math_pow_quarter (Fin x) = (if x < 0 then NaN else Fin (root 4 x))"
| "Math_pow_quarter PInf = PInf"
| "Math_pow_quarter NInf = PInf"
| "Math_pow_quarter NaN = NaN"


section \<open>Category scores and the compatibility aggregator\<close>

text \<open>
  A category score is a pair of a score and a breakdown, the breakdown an object literal
  whose keys are kept in the order the source writes them. Category scores are produced by
  the scorers below from literals and one guarded quotient, so they are finite.
\<close>

record category =
  score :: real
  breakdown :: "(string \<times> real) list"

record CategoryScores =
  physical :: category
  lifestyle :: category
  social :: category
  relationship :: category

record weights =
  w_physical :: jsnum
  w_lifestyle :: jsnum
  w_social :: jsnum
  w_relationship :: jsnum

text \<open>
  \<open>calculateWeightedCompatibility\<close>: the first argument is \<open>this.config.scoringAlgorithm\<close>.
  The weights are normalised before the \<open>switch\<close>, whatever the algorithm. The fields
  of the weights object carry the prefix \<open>w_\<close>, their names being taken by
  \<open>CategoryScores\<close>; a weight is any JavaScript number.
\<close>

definition weightedAverage :: "CategoryScores \<Rightarrow> weights \<Rightarrow> jsnum" where
  "weightedAverage categoryScores normalizedWeights =
     js_add (js_add (js_add
       (js_mul (Fin (score (physical categoryScores))) (w_physical normalizedWeights))
       (js_mul (Fin (score (lifestyle categoryScores))) (w_lifestyle normalizedWeights)))
       (js_mul (Fin (score (social categoryScores))) (w_social normalizedWeights)))
       (js_mul (Fin (score (relationship categoryScores))) (w_relationship normalizedWeights))"

definition calculateWeightedCompatibility ::
  "string \<Rightarrow> CategoryScores \<Rightarrow> weights \<Rightarrow> jsnum" where
  "calculateWeightedCompatibility scoringAlgorithm categoryScores weights =
     (let totalWeight = js_add (js_add (js_add (w_physical weights) (w_lifestyle weights))
                          (w_social weights)) (w_relationship weights);
          normalizedWeights = \<lparr>
            w_physical = js_div (w_physical weights) totalWeight,
            w_lifestyle = js_div (w_lifestyle weights) totalWeight,
            w_social = js_div (w_social weights) totalWeight,
            w_relationship = js_div (w_relationship weights) totalWeight \<rparr>
      in if scoringAlgorithm = ''weighted_average'' then
           weightedAverage categoryScores normalizedWeights
         else if scoringAlgorithm = ''multiplicative'' then
           Math_pow_quarter (Fin (score (physical categoryScores) * score (lifestyle categoryScores) *
             score (social categoryScores) * score (relationship categoryScores)))
         else if scoringAlgorithm = ''hybrid'' then
           (let minScore = min (min (min (score (physical categoryScores))
                                 (score (lifestyle categoryScores)))
                                 (score (social categoryScores)))
                                 (score (relationship categoryScores));
                penalty = (if minScore < 0.3 then minScore / 0.3 else 1)
            in js_mul (weightedAverage categoryScores normalizedWeights) (Fin penalty))
         else Fin 0.5)"

text \<open>Four weights and four bare scores, for stating properties of the aggregator.\<close>

definition weights_of :: "real \<Rightarrow> real \<Rightarrow> real \<Rightarrow> real \<Rightarrow> weights" where
  "weights_of p l s r =
     \<lparr> w_physical = Fin p, w_lifestyle = Fin l, w_social = Fin s, w_relationship = Fin r \<rparr>"

definition scores_of :: "real \<Rightarrow> real \<Rightarrow> real \<Rightarrow> real \<Rightarrow> CategoryScores" where
  "scores_of p l s r =
     \<lparr> physical = \<lparr> score = p, breakdown = [] \<rparr>,
       lifestyle = \<lparr> score = l, breakdown = [] \<rparr>,
       social = \<lparr> score = s, breakdown = [] \<rparr>,
       relationship = \<lparr> score = r, breakdown = [] \<rparr> \<rparr>"

section \<open>Profiles\<close>

text \<open>
  Only the fields the engine reads are kept. An optional field is an \<open>option\<close>; the
  source reads most of them through \<open>?.\<close> and \<open>||\<close>, so a field the type declares as
  mandatory (\<open>preferences\<close>, \<open>lookingFor\<close>, the two timestamps) is optional here too.
  Ages and heights are finite numbers. A timestamp is a valid date, in milliseconds since
  the epoch. The \<open>lifestyle\<close> field of \<open>PersonalInfo\<close> is named \<open>lifestyleInfo\<close>, since
  \<open>CategoryScores\<close> has a field of that name already.
\<close>

record Lifestyle =
  smoking :: "string option"
  drinking :: "string option"
  drugs :: "string option"
  exercise :: "string option"
  diet :: "string option"

record PersonalInfo =
  age :: real
  sexualOrientation :: string
  lookingFor :: "string list option"
  education :: "string option"
  height :: "real option"
  bodyType :: "string option"
  languages :: "string list option"
  lifestyleInfo :: "Lifestyle option"
  interests :: "string list option"

record AgeRange =
  range_min :: real
  range_max :: real

record MatchingPreferences =
  ageRange :: "AgeRange option"
  maxDistance :: real
  bodyTypes :: "string list option"

record UserProfile =
  userId :: string
  personalInfo :: PersonalInfo
  photos :: "string list option"
  preferences :: "MatchingPreferences option"
  isVerified :: "bool option"
  createdAt :: "int option"
  lastActiveAt :: "int option"

subsection \<open>Reading optional fields\<close>

text \<open>\<open>xs || []\<close> on an array: an array is truthy even when empty.\<close>

definition or_empty :: "'a list option \<Rightarrow> 'a list" where
  "or_empty xs = (case xs of None \<Rightarrow> [] | Some ys \<Rightarrow> ys)"

text \<open>\<open>s || d\<close> on a string: the empty string is falsy.\<close>

definition str_or :: "string option \<Rightarrow> string \<Rightarrow> string" where
  "str_or s d = (case s of None \<Rightarrow> d | Some v \<Rightarrow> if v = [] then d else v)"

text \<open>\<open>h || d\<close> on a finite number: \<open>0\<close> is falsy.\<close>

definition num_or :: "real option \<Rightarrow> real \<Rightarrow> real" where
  "num_or h d = (case h of None \<Rightarrow> d | Some v \<Rightarrow> if v = 0 then d else v)"

text \<open>\<open>p.personalInfo.lifestyle?.f\<close>\<close>

definition lifestyle_field :: "(Lifestyle \<Rightarrow> string option) \<Rightarrow> UserProfile \<Rightarrow> string option" where
  "lifestyle_field f p = (case lifestyleInfo (personalInfo p) of None \<Rightarrow> None | Some l \<Rightarrow> f l)"

text \<open>\<open>p.preferences?.bodyTypes || []\<close> and \<open>p.preferences?.ageRange\<close>\<close>

definition preferredBodyTypes :: "UserProfile \<Rightarrow> string list" where
  "preferredBodyTypes p = (case preferences p of None \<Rightarrow> [] | Some q \<Rightarrow> or_empty (bodyTypes q))"

definition preferredAgeRange :: "UserProfile \<Rightarrow> AgeRange option" where
  "preferredAgeRange p = (case preferences p of None \<Rightarrow> None | Some q \<Rightarrow> ageRange q)"

text \<open>\<open>xs.some(x => ys.includes(x))\<close>\<close>

definition some_included :: "'a list \<Rightarrow> 'a list \<Rightarrow> bool" where
  "some_included xs ys = list_ex (\<lambda>x. x \<in> set ys) xs"

text \<open>\<open>xs.indexOf(x)\<close>, \<open>-1\<close> when absent.\<close>

fun indexOf :: "'a list \<Rightarrow> 'a \<Rightarrow> int" where
  "indexOf [] x = -1"
| "indexOf (y # ys) x =
     (if x = y then 0 else (let i = indexOf ys x in if i < 0 then -1 else i + 1))"

subsection \<open>Education levels\<close>

text \<open>
  \<open>levels[education] || 2\<close> reads an object literal, whose prototype is
  \<open>Object.prototype\<close>: for a key inherited from it the read gives a function or an object,
  which is truthy and is a \<open>NaN\<close> in the arithmetic that follows.
\<close>

definition levels :: "(string \<times> real) list" where
  "levels = [(''high_school'', 1), (''some_college'', 2), (''bachelors'', 3), (''masters'', 4),
             (''phd'', 5), (''trade_school'', 2), (''associate'', 2)]"

definition object_prototype_keys :: "string list" where
  "object_prototype_keys =
     [''constructor'', ''hasOwnProperty'', ''isPrototypeOf'', ''propertyIsEnumerable'',
      ''toLocaleString'', ''toString'', ''valueOf'', ''__proto__'', ''__defineGetter__'',
      ''__defineSetter__'', ''__lookupGetter__'', ''__lookupSetter__'']"

definition getEducationLevel :: "string \<Rightarrow> jsnum" where
  "getEducationLevel e =
     (case map_of levels e of
        Some n \<Rightarrow> Fin n
      | None \<Rightarrow> if e \<in> set object_prototype_keys then NaN else Fin 2)"

section \<open>Deal breakers\<close>

text \<open>The service configuration; \<open>now\<close> below is the value of \<open>Date.now()\<close>.\<close>

record PreferenceFilteringConfig =
  enableDealBreakerFiltering :: bool
  scoringAlgorithm :: string

definition daysSince :: "int \<Rightarrow> int option \<Rightarrow> real" where
  "daysSince now t =
     (case t of Some ms \<Rightarrow> real_of_int (now - ms) / (1000 * 60 * 60 * 24) | None \<Rightarrow> 999)"

definition isDealBreakerTriggered :: "int \<Rightarrow> UserProfile \<Rightarrow> UserProfile \<Rightarrow> string \<Rightarrow> bool" where
  "isDealBreakerTriggered now userProfile candidate dealBreaker =
     (if dealBreaker = ''smoking'' then
        lifestyle_field smoking candidate = Some ''regularly'' \<or>
        lifestyle_field smoking candidate = Some ''socially''
      else if dealBreaker = ''no_photos'' then
        (case photos candidate of None \<Rightarrow> True | Some ps \<Rightarrow> length ps = 0)
      else if dealBreaker = ''height_mismatch'' then
        (let userHeight = num_or (height (personalInfo userProfile)) 0;
             candidateHeight = num_or (height (personalInfo candidate)) 0
         in \<bar>userHeight - candidateHeight\<bar> > 20)
      else if dealBreaker = ''body_type_mismatch'' then
        (case bodyType (personalInfo candidate) of
           None \<Rightarrow> False
         | Some candidateBodyType \<Rightarrow>
             length (preferredBodyTypes userProfile) > 0 \<and>
             candidateBodyType \<notin> set (preferredBodyTypes userProfile))
      else if dealBreaker = ''drinking_heavily'' then
        lifestyle_field drinking candidate = Some ''frequently''
      else if dealBreaker = ''drug_use'' then
        lifestyle_field drugs candidate = Some ''regularly'' \<or>
        lifestyle_field drugs candidate = Some ''occasionally''
      else if dealBreaker = ''no_exercise'' then
        lifestyle_field exercise candidate = Some ''never''
      else if dealBreaker = ''no_verification'' then
        isVerified candidate \<noteq> Some True
      else if dealBreaker = ''education_mismatch'' then
        (case (education (personalInfo userProfile), education (personalInfo candidate)) of
           (Some userEducation, Some candidateEducation) \<Rightarrow>
             (if userEducation = [] \<or> candidateEducation = [] then False
              else (case (getEducationLevel userEducation, getEducationLevel candidateEducation) of
                      (Fin a, Fin b) \<Rightarrow> a - b > 2
                    | _ \<Rightarrow> False))
         | _ \<Rightarrow> False)
      else if dealBreaker = ''language_barrier'' then
        \<not> some_included (or_empty (languages (personalInfo userProfile)))
                          (or_empty (languages (personalInfo candidate)))
      else if dealBreaker = ''inactive_users'' then
        daysSince now (lastActiveAt candidate) > 14
      else if dealBreaker = ''new_profiles'' then
        daysSince now (createdAt candidate) < 1
      else if dealBreaker = ''age_gaps'' then
        \<bar>age (personalInfo userProfile) - age (personalInfo candidate)\<bar> > 15
      else if dealBreaker = ''relationship_mismatch'' then
        \<not> some_included (or_empty (lookingFor (personalInfo userProfile)))
                          (or_empty (lookingFor (personalInfo candidate)))
      else False)"

text \<open>
  \<open>applyDealBreakerFilters\<close>: a candidate is kept when no listed deal breaker is triggered;
  the inner loop returns at the first one that is.
\<close>

fun anyTriggered :: "int \<Rightarrow> UserProfile \<Rightarrow> UserProfile \<Rightarrow> string list \<Rightarrow> bool" where
  "anyTriggered now userProfile candidate [] = False"
| "anyTriggered now userProfile candidate (dealBreaker # rest) =
     (if isDealBreakerTriggered now userProfile candidate dealBreaker then True
      else anyTriggered now userProfile candidate rest)"

definition applyDealBreakerFilters ::
  "PreferenceFilteringConfig \<Rightarrow> int \<Rightarrow> UserProfile \<Rightarrow> UserProfile list \<Rightarrow> string list
     \<Rightarrow> UserProfile list" where
  "applyDealBreakerFilters config now userProfile candidates dealBreakers =
     (if \<not> enableDealBreakerFiltering config \<or> length dealBreakers = 0 then candidates
      else filter (\<lambda>candidate. \<not> anyTriggered now userProfile candidate dealBreakers)
             candidates)"

section \<open>Sub-factor scorers\<close>

definition calculateBodyTypeCompatibility :: "UserProfile \<Rightarrow> UserProfile \<Rightarrow> real" where
  "calculateBodyTypeCompatibility userProfile candidate =
     (case bodyType (personalInfo candidate) of
        None \<Rightarrow> 0.7
      | Some candidateBodyType \<Rightarrow>
          (if length (preferredBodyTypes userProfile) = 0 \<or> candidateBodyType = [] then 0.7
           else if candidateBodyType \<in> set (preferredBodyTypes userProfile) then 1.0
           else 0.3))"

definition calculateHeightCompatibility :: "UserProfile \<Rightarrow> UserProfile \<Rightarrow> real" where
  "calculateHeightCompatibility userProfile candidate =
     (case (height (personalInfo userProfile), height (personalInfo candidate)) of
        (Some userHeight, Some candidateHeight) \<Rightarrow>
          (if userHeight = 0 then 0.7 else if candidateHeight = 0 then 0.7
           else (let heightDifference = \<bar>userHeight - candidateHeight\<bar>
                 in if heightDifference \<le> 5 then 1.0
                    else if heightDifference \<le> 15 then 0.8
                    else if heightDifference \<le> 25 then 0.6
                    else 0.3))
      | _ \<Rightarrow> 0.7)"

definition calculateAgeCompatibility :: "UserProfile \<Rightarrow> UserProfile \<Rightarrow> real" where
  "calculateAgeCompatibility userProfile candidate =
     (let userAge = age (personalInfo userProfile);
          candidateAge = age (personalInfo candidate)
      in case preferredAgeRange userProfile of
           None \<Rightarrow>
             (let ageDifference = \<bar>userAge - candidateAge\<bar>
              in if ageDifference \<le> 3 then 1.0
                 else if ageDifference \<le> 7 then 0.8
                 else if ageDifference \<le> 12 then 0.6
                 else 0.3)
         | Some r \<Rightarrow>
             (if candidateAge \<ge> range_min r \<and> candidateAge \<le> range_max r then 1.0
              else (let outsideBy = min \<bar>candidateAge - range_min r\<bar> \<bar>candidateAge - range_max r\<bar>
                    in if outsideBy \<le> 2 then 0.7
                       else if outsideBy \<le> 5 then 0.4
                       else 0.1)))"

definition calculateAppearanceScore :: "UserProfile \<Rightarrow> real" where
  "calculateAppearanceScore candidate =
     (let photoCount = (case photos candidate of None \<Rightarrow> 0 | Some ps \<Rightarrow> length ps)
      in if photoCount = 0 then 0.2
         else if photoCount \<ge> 5 then 1.0
         else if photoCount \<ge> 3 then 0.8
         else if photoCount \<ge> 2 then 0.6
         else 0.4)"

definition calculateSmokingCompatibility :: "UserProfile \<Rightarrow> UserProfile \<Rightarrow> real" where
  "calculateSmokingCompatibility userProfile candidate =
     (let userSmoking = str_or (lifestyle_field smoking userProfile) ''unknown'';
          candidateSmoking = str_or (lifestyle_field smoking candidate) ''unknown''
      in if userSmoking = candidateSmoking then 1.0
         else if (userSmoking = ''never'' \<and> candidateSmoking = ''socially'') \<or>
                 (userSmoking = ''socially'' \<and> candidateSmoking = ''never'') then 0.6
         else if (userSmoking = ''never'' \<and> candidateSmoking = ''regularly'') \<or>
                 (userSmoking = ''regularly'' \<and> candidateSmoking = ''never'') then 0.2
         else 0.5)"

definition drinkingLevels :: "string list" where
  "drinkingLevels = [''never'', ''rarely'', ''socially'', ''regularly'', ''frequently'']"

definition calculateDrinkingCompatibility :: "UserProfile \<Rightarrow> UserProfile \<Rightarrow> real" where
  "calculateDrinkingCompatibility userProfile candidate =
     (let userDrinking = str_or (lifestyle_field drinking userProfile) ''unknown'';
          candidateDrinking = str_or (lifestyle_field drinking candidate) ''unknown''
      in if userDrinking = candidateDrinking then 1.0
         else (let userLevel = indexOf drinkingLevels userDrinking;
                   candidateLevel = indexOf drinkingLevels candidateDrinking
               in if userLevel \<ge> 0 \<and> candidateLevel \<ge> 0 then
                    (let difference = \<bar>userLevel - candidateLevel\<bar>
                     in if difference \<le> 1 then 0.8
                        else if difference \<le> 2 then 0.6
                        else 0.3)
                  else 0.5))"

definition exerciseLevels :: "string list" where
  "exerciseLevels = [''never'', ''rarely'', ''sometimes'', ''regularly'', ''daily'']"

definition calculateExerciseCompatibility :: "UserProfile \<Rightarrow> UserProfile \<Rightarrow> real" where
  "calculateExerciseCompatibility userProfile candidate =
     (let userExercise = str_or (lifestyle_field exercise userProfile) ''unknown'';
          candidateExercise = str_or (lifestyle_field exercise candidate) ''unknown''
      in if userExercise = candidateExercise then 1.0
         else (let userLevel = indexOf exerciseLevels userExercise;
                   candidateLevel = indexOf exerciseLevels candidateExercise
               in if userLevel \<ge> 0 \<and> candidateLevel \<ge> 0 then
                    (let difference = \<bar>userLevel - candidateLevel\<bar>
                     in if difference \<le> 1 then 0.8
                        else if difference \<le> 2 then 0.6
                        else 0.4)
                  else 0.5))"

definition calculateDietCompatibility :: "UserProfile \<Rightarrow> UserProfile \<Rightarrow> real" where
  "calculateDietCompatibility userProfile candidate =
     (let userDiet = str_or (lifestyle_field diet userProfile) ''unknown'';
          candidateDiet = str_or (lifestyle_field diet candidate) ''unknown''
      in if userDiet = candidateDiet then 1.0
         else if userDiet = ''vegetarian'' \<and> candidateDiet = ''vegan'' then 0.7
         else if userDiet = ''vegan'' \<and> candidateDiet = ''vegetarian'' then 0.7
         else if (userDiet = ''omnivore'' \<and> candidateDiet = ''vegetarian'') \<or>
                 (userDiet = ''vegetarian'' \<and> candidateDiet = ''omnivore'') then 0.6
         else 0.5)"

definition calculateSocialHabitsCompatibility :: "UserProfile \<Rightarrow> UserProfile \<Rightarrow> real" where
  "calculateSocialHabitsCompatibility userProfile candidate = 0.5"

definition calculateEducationCompatibility :: "UserProfile \<Rightarrow> UserProfile \<Rightarrow> real" where
  "calculateEducationCompatibility userProfile candidate =
     (case (education (personalInfo userProfile), education (personalInfo candidate)) of
        (Some userEducation, Some candidateEducation) \<Rightarrow>
          (if userEducation = [] \<or> candidateEducation = [] then 0.5
           else (case (getEducationLevel userEducation, getEducationLevel candidateEducation) of
                   (Fin userLevel, Fin candidateLevel) \<Rightarrow>
                     (let difference = \<bar>userLevel - candidateLevel\<bar>
                      in if difference = 0 then 1.0
                         else if difference = 1 then 0.8
                         else if difference = 2 then 0.6
                         else 0.4)
                 | _ \<Rightarrow> 0.4))
      | _ \<Rightarrow> 0.5)"

definition calculateOccupationCompatibility :: "UserProfile \<Rightarrow> UserProfile \<Rightarrow> real" where
  "calculateOccupationCompatibility userProfile candidate = 0.5"

definition calculateInterestsCompatibility :: "UserProfile \<Rightarrow> UserProfile \<Rightarrow> real" where
  "calculateInterestsCompatibility userProfile candidate =
     (let userInterests = or_empty (interests (personalInfo userProfile));
          candidateInterests = or_empty (interests (personalInfo candidate))
      in if length userInterests = 0 \<or> length candidateInterests = 0 then 0.5
         else (let commonInterests = filter (\<lambda>interest. interest \<in> set candidateInterests)
                                       userInterests;
                   compatibility = real (length commonInterests) /
                                   real (min (length userInterests) (length candidateInterests))
               in min compatibility 1.0))"

definition calculateLanguageCompatibility :: "UserProfile \<Rightarrow> UserProfile \<Rightarrow> real" where
  "calculateLanguageCompatibility userProfile candidate =
     (let userLanguages = or_empty (languages (personalInfo userProfile));
          candidateLanguages = or_empty (languages (personalInfo candidate))
      in if length userLanguages = 0 \<or> length candidateLanguages = 0 then 0.7
         else if some_included userLanguages candidateLanguages then 1.0 else 0.2)"

definition calculateRelationshipTypeCompatibility :: "UserProfile \<Rightarrow> UserProfile \<Rightarrow> real" where
  "calculateRelationshipTypeCompatibility userProfile candidate =
     (if some_included (or_empty (lookingFor (personalInfo userProfile)))
                       (or_empty (lookingFor (personalInfo candidate)))
      then 1.0 else 0.2)"

definition calculateSexualOrientationCompatibility :: "UserProfile \<Rightarrow> UserProfile \<Rightarrow> real" where
  "calculateSexualOrientationCompatibility userProfile candidate =
     (let userOrientation = sexualOrientation (personalInfo userProfile);
          candidateOrientation = sexualOrientation (personalInfo candidate)
      in if userOrientation = candidateOrientation then 1.0
         else if userOrientation = ''bisexual'' \<or> candidateOrientation = ''bisexual'' then 0.8
         else 0.3)"

definition calculateCommitmentCompatibility :: "UserProfile \<Rightarrow> UserProfile \<Rightarrow> real" where
  "calculateCommitmentCompatibility userProfile candidate = 0.5"

definition calculateFamilyGoalsCompatibility :: "UserProfile \<Rightarrow> UserProfile \<Rightarrow> real" where
  "calculateFamilyGoalsCompatibility userProfile candidate = 0.5"

section \<open>Category scorers\<close>

text \<open>
  Each scorer adds its sub-factors to \<open>totalScore\<close>, counts them in \<open>factorCount\<close> and
  divides; the breakdown lists the same values under their names.
\<close>

definition calculatePhysicalScore :: "UserProfile \<Rightarrow> UserProfile \<Rightarrow> category" where
  "calculatePhysicalScore userProfile candidate =
     (let bodyTypeScore = calculateBodyTypeCompatibility userProfile candidate;
          heightScore = calculateHeightCompatibility userProfile candidate;
          ageScore = calculateAgeCompatibility userProfile candidate;
          appearanceScore = calculateAppearanceScore candidate;
          totalScore = 0 + bodyTypeScore + heightScore + ageScore + appearanceScore;
          factorCount = (0::nat) + 1 + 1 + 1 + 1;
          averageScore = (if factorCount > 0 then totalScore / real factorCount else 0)
      in \<lparr> score = averageScore,
           breakdown = [(''bodyType'', bodyTypeScore), (''height'', heightScore),
                        (''age'', ageScore), (''appearance'', appearanceScore)] \<rparr>)"

definition calculateLifestyleScore :: "UserProfile \<Rightarrow> UserProfile \<Rightarrow> category" where
  "calculateLifestyleScore userProfile candidate =
     (let smokingScore = calculateSmokingCompatibility userProfile candidate;
          drinkingScore = calculateDrinkingCompatibility userProfile candidate;
          exerciseScore = calculateExerciseCompatibility userProfile candidate;
          dietScore = calculateDietCompatibility userProfile candidate;
          socialScore = calculateSocialHabitsCompatibility userProfile candidate;
          totalScore = 0 + smokingScore + drinkingScore + exerciseScore + dietScore + socialScore;
          factorCount = (0::nat) + 1 + 1 + 1 + 1 + 1;
          averageScore = (if factorCount > 0 then totalScore / real factorCount else 0.5)
      in \<lparr> score = averageScore,
           breakdown = [(''smoking'', smokingScore), (''drinking'', drinkingScore),
                        (''exercise'', exerciseScore), (''diet'', dietScore),
                        (''socialHabits'', socialScore)] \<rparr>)"

definition calculateSocialScore :: "UserProfile \<Rightarrow> UserProfile \<Rightarrow> category" where
  "calculateSocialScore userProfile candidate =
     (let educationScore = calculateEducationCompatibility userProfile candidate;
          occupationScore = calculateOccupationCompatibility userProfile candidate;
          interestsScore = calculateInterestsCompatibility userProfile candidate;
          languageScore = calculateLanguageCompatibility userProfile candidate;
          personalityScore = 0.5;
          totalScore = 0 + educationScore + occupationScore + interestsScore + languageScore
                         + personalityScore;
          factorCount = (0::nat) + 1 + 1 + 1 + 1 + 1;
          averageScore = (if factorCount > 0 then totalScore / real factorCount else 0.5)
      in \<lparr> score = averageScore,
           breakdown = [(''education'', educationScore), (''occupation'', occupationScore),
                        (''interests'', interestsScore), (''languages'', languageScore),
                        (''personality'', personalityScore)] \<rparr>)"

definition calculateRelationshipScore :: "UserProfile \<Rightarrow> UserProfile \<Rightarrow> category" where
  "calculateRelationshipScore userProfile candidate =
     (let relationshipTypeScore = calculateRelationshipTypeCompatibility userProfile candidate;
          orientationScore = calculateSexualOrientationCompatibility userProfile candidate;
          commitmentScore = calculateCommitmentCompatibility userProfile candidate;
          familyScore = calculateFamilyGoalsCompatibility userProfile candidate;
          communicationScore = 0.5;
          totalScore = 0 + relationshipTypeScore + orientationScore + commitmentScore + familyScore
                         + communicationScore;
          factorCount = (0::nat) + 1 + 1 + 1 + 1 + 1;
          averageScore = (if factorCount > 0 then totalScore / real factorCount else 0.5)
      in \<lparr> score = averageScore,
           breakdown = [(''relationshipType'', relationshipTypeScore),
                        (''sexualOrientation'', orientationScore),
                        (''commitmentLevel'', commitmentScore), (''familyGoals'', familyScore),
                        (''communication'', communicationScore)] \<rparr>)"

definition calculateCategoryScores :: "UserProfile \<Rightarrow> UserProfile \<Rightarrow> CategoryScores" where
  "calculateCategoryScores userProfile candidate =
     \<lparr> physical = calculatePhysicalScore userProfile candidate,
       lifestyle = calculateLifestyleScore userProfile candidate,
       social = calculateSocialScore userProfile candidate,
       relationship = calculateRelationshipScore userProfile candidate \<rparr>"

section \<open>Matching criteria\<close>

text \<open>
  \<open>MatchingCriteria\<close> and its extension \<open>AdvancedMatchingCriteria\<close>. The \<open>preferences\<close>
  field of the criteria is named \<open>criteria_preferences\<close>, the optional per-category
  thresholds \<open>min_physical\<close> to \<open>min_relationship\<close>. A threshold or a weight is any
  JavaScript number.
\<close>

record minimumThresholds =
  overall :: jsnum
  min_physical :: "jsnum option"
  min_lifestyle :: "jsnum option"
  min_social :: "jsnum option"
  min_relationship :: "jsnum option"

record MatchingCriteria =
  criteria_userId :: string
  criteria_preferences :: MatchingPreferences
  sort_by :: string
  sort_direction :: string

record AdvancedMatchingCriteria = MatchingCriteria +
  preferenceWeights :: weights
  minimumThresholds :: minimumThresholds
  dealBreakers :: "string list"
  mustHaves :: "string list"
  niceToHaves :: "string list"

section \<open>Preference alignment\<close>

record DealBreakerAnalysis =
  passed :: bool
  triggeredDealBreakers :: "string list"
  passedDealBreakers :: "string list"

record MustHaveAnalysis =
  totalMustHaves :: nat
  satisfiedMustHaves :: nat
  satisfiedItems :: "string list"
  missedItems :: "string list"

record NiceToHaveAnalysis =
  totalNiceToHaves :: nat
  matchedNiceToHaves :: nat
  matchedItems :: "string list"
  missedNiceToHaves :: "string list"

record PreferenceAlignment =
  totalScore :: jsnum
  categoryAlignments :: CategoryScores
  matchedPreferences :: "(string \<times> string list) list"
  mismatchedPreferences :: "(string \<times> string list) list"
  dealBreakerAnalysis :: DealBreakerAnalysis
  mustHaveAnalysis :: MustHaveAnalysis
  niceToHaveAnalysis :: NiceToHaveAnalysis

definition analyzePreferenceMatches ::
  "UserProfile \<Rightarrow> UserProfile \<Rightarrow> (string \<times> string list) list \<times> (string \<times> string list) list" where
  "analyzePreferenceMatches userProfile candidate =
     ([(''physical'', []), (''lifestyle'', []), (''social'', []), (''relationship'', [])],
      [(''physical'', []), (''lifestyle'', []), (''social'', []), (''relationship'', [])])"

definition analyzeDealBreakers ::
  "int \<Rightarrow> UserProfile \<Rightarrow> UserProfile \<Rightarrow> string list \<Rightarrow> DealBreakerAnalysis" where
  "analyzeDealBreakers now userProfile candidate dealBreakerList =
     (let triggered = filter (\<lambda>d. isDealBreakerTriggered now userProfile candidate d) dealBreakerList;
          passedList = filter (\<lambda>d. \<not> isDealBreakerTriggered now userProfile candidate d) dealBreakerList
      in \<lparr> passed = (length triggered = 0),
           triggeredDealBreakers = triggered,
           passedDealBreakers = passedList \<rparr>)"

text \<open>
  \<open>Math.random()\<close> is a source of numbers in \<open>[0, 1)\<close> that the caller does not control:
  \<open>random\<close> gives the value of each call, and the number of calls made so far is threaded
  through. The \<open>forEach\<close> loops draw one number per item and push the item onto one of two
  lists.
\<close>

fun drawItems ::
  "(nat \<Rightarrow> real) \<Rightarrow> real \<Rightarrow> nat \<Rightarrow> string list \<Rightarrow> string list \<Rightarrow> string list
     \<Rightarrow> (string list \<times> string list) \<times> nat" where
  "drawItems random bound calls [] accepted rejected = ((accepted, rejected), calls)"
| "drawItems random bound calls (item # items) accepted rejected =
     (if random calls > bound
      then drawItems random bound (calls + 1) items (accepted @ [item]) rejected
      else drawItems random bound (calls + 1) items accepted (rejected @ [item]))"

definition analyzeMustHaves ::
  "(nat \<Rightarrow> real) \<Rightarrow> nat \<Rightarrow> UserProfile \<Rightarrow> UserProfile \<Rightarrow> string list \<Rightarrow> MustHaveAnalysis \<times> nat" where
  "analyzeMustHaves random calls userProfile candidate mustHaveList =
     (case drawItems random 0.3 calls mustHaveList [] [] of
        ((satisfied, missed), calls') \<Rightarrow>
          (\<lparr> totalMustHaves = length mustHaveList,
             satisfiedMustHaves = length satisfied,
             satisfiedItems = satisfied,
             missedItems = missed \<rparr>, calls'))"

definition analyzeNiceToHaves ::
  "(nat \<Rightarrow> real) \<Rightarrow> nat \<Rightarrow> UserProfile \<Rightarrow> UserProfile \<Rightarrow> string list \<Rightarrow> NiceToHaveAnalysis \<times> nat" where
  "analyzeNiceToHaves random calls userProfile candidate niceToHaveList =
     (case drawItems random 0.5 calls niceToHaveList [] [] of
        ((matched, missed), calls') \<Rightarrow>
          (\<lparr> totalNiceToHaves = length niceToHaveList,
             matchedNiceToHaves = length matched,
             matchedItems = matched,
             missedNiceToHaves = missed \<rparr>, calls'))"

definition analyzePreferenceMatch ::
  "PreferenceFilteringConfig \<Rightarrow> int \<Rightarrow> (nat \<Rightarrow> real) \<Rightarrow> nat \<Rightarrow> UserProfile \<Rightarrow> UserProfile
     \<Rightarrow> 'a AdvancedMatchingCriteria_scheme \<Rightarrow> PreferenceAlignment \<times> nat" where
  "analyzePreferenceMatch config now random calls userProfile candidate criteria =
     (let categoryScores = calculateCategoryScores userProfile candidate;
          total = calculateWeightedCompatibility (scoringAlgorithm config) categoryScores
                    (preferenceWeights criteria);
          (matched, mismatched) = analyzePreferenceMatches userProfile candidate;
          dba = analyzeDealBreakers now userProfile candidate (dealBreakers criteria);
          (mha, calls1) = analyzeMustHaves random calls userProfile candidate (mustHaves criteria);
          (nha, calls2) = analyzeNiceToHaves random calls1 userProfile candidate (niceToHaves criteria)
      in (\<lparr> totalScore = total,
            categoryAlignments = categoryScores,
            matchedPreferences = matched,
            mismatchedPreferences = mismatched,
            dealBreakerAnalysis = dba,
            mustHaveAnalysis = mha,
            niceToHaveAnalysis = nha \<rparr>, calls2))"

section \<open>Threshold gate\<close>

text \<open>\<open>thresholds.c && score < thresholds.c\<close>: an absent, zero or \<open>NaN\<close> threshold is skipped.\<close>

definition belowThreshold :: "real \<Rightarrow> jsnum option \<Rightarrow> bool" where
  "belowThreshold s threshold =
     (case threshold of None \<Rightarrow> False | Some t \<Rightarrow> js_truthy t \<and> js_lt (Fin s) t)"

definition meetsMinimumThresholds :: "PreferenceAlignment \<Rightarrow> minimumThresholds \<Rightarrow> bool" where
  "meetsMinimumThresholds preferenceAlignment thresholds =
     (if js_lt (totalScore preferenceAlignment) (overall thresholds) then False
      else (let categoryScores = categoryAlignments preferenceAlignment
            in if belowThreshold (score (physical categoryScores)) (min_physical thresholds)
               then False
               else if belowThreshold (score (lifestyle categoryScores)) (min_lifestyle thresholds)
               then False
               else if belowThreshold (score (social categoryScores)) (min_social thresholds)
               then False
               else if belowThreshold (score (relationship categoryScores))
                         (min_relationship thresholds)
               then False
               else True))"

section \<open>Ranking\<close>


record MatchingConfig =
  maxRadius :: real
  maxResults :: nat



section \<open>Validation of the criteria\<close>

text \<open>
  A thrown \<open>Error\<close> carries a message, a template literal kept as its parts. The other
  error class of the matching types, \<open>MatchingValidationError\<close>, carries a list of
  \<open>MatchingError\<close> objects.
\<close>

datatype template_part = Lit string | Num real | IsoDate int

record MatchingError =
  code :: string
  message :: string
  field :: "string option"

datatype js_error =
  Error "template_part list"
| MatchingValidationError "MatchingError list"

definition validateMatchingCriteria ::
  "MatchingConfig \<Rightarrow> 'a MatchingCriteria_scheme \<Rightarrow> js_error + unit" where
  "validateMatchingCriteria config criteria =
     (if maxDistance (criteria_preferences criteria) > maxRadius config then
        Inl (Error [Lit ''Maximum distance cannot exceed '', Num (maxRadius config), Lit ''km''])
      else (case ageRange (criteria_preferences criteria) of
              None \<Rightarrow> Inr ()
            | Some r \<Rightarrow>
                if range_min r < 18 \<or> range_max r > 99 then Inl (Error [Lit ''Invalid age range''])
                else Inr ()))"

text \<open>
  \<open>isUserOnCooldown\<close> reads the map of cooldown ends. \<open>findMatches\<close> checks the cooldown,
  validates the criteria and goes on; its \<open>catch\<close> logs the error and throws it again.
  The steps after the validation (location, filtering, scoring) are the argument
  \<open>continue\<close>.
\<close>

definition isUserOnCooldown :: "(string \<rightharpoonup> int) \<Rightarrow> int \<Rightarrow> string \<Rightarrow> bool" where
  "isUserOnCooldown userCooldowns now uid =
     (case userCooldowns uid of None \<Rightarrow> False | Some cooldownEnd \<Rightarrow> now < cooldownEnd)"

definition findMatches ::
  "MatchingConfig \<Rightarrow> (string \<rightharpoonup> int) \<Rightarrow> int \<Rightarrow> string \<Rightarrow> 'a MatchingCriteria_scheme
     \<Rightarrow> (js_error + 'r) \<Rightarrow> js_error + 'r" where
  "findMatches config userCooldowns now uid criteria continue =
     (if isUserOnCooldown userCooldowns now uid then
        Inl (Error (case userCooldowns uid of
                      Some cooldownEnd \<Rightarrow> [Lit ''User is on cooldown until '', IsoDate cooldownEnd]
                    | None \<Rightarrow> [Lit ''User is on cooldown until '', Lit ''undefined'']))
      else (case validateMatchingCriteria config criteria of
              Inl e \<Rightarrow> Inl e
            | Inr _ \<Rightarrow> continue))"

section \<open>Notions used to state the properties\<close>

text \<open>A height with a missing value read as 0, as the deal-breaker catalogue words it.\<close>

definition heightOrZero :: "UserProfile \<Rightarrow> real" where
  "heightOrZero p = (case height (personalInfo p) of None \<Rightarrow> 0 | Some h \<Rightarrow> h)"


section \<open>Sample data\<close>

text \<open>Two sparse profiles and a criteria object, used to run the definitions.\<close>

definition sparseInfo :: PersonalInfo where
  "sparseInfo =
     \<lparr> age = 30, sexualOrientation = ''straight'', lookingFor = Some [''casual''],
       education = None, height = None, bodyType = None, languages = None,
       lifestyleInfo = None, interests = None \<rparr>"

definition seekerProfile :: UserProfile where
  "seekerProfile =
     \<lparr> userId = ''seeker'', personalInfo = sparseInfo, photos = Some [], preferences = None,
       isVerified = Some True, createdAt = None, lastActiveAt = None \<rparr>"

definition candidateProfile :: UserProfile where
  "candidateProfile =
     \<lparr> userId = ''candidate'', personalInfo = sparseInfo, photos = Some [], preferences = None,
       isVerified = Some True, createdAt = None, lastActiveAt = None \<rparr>"

definition tallCandidate :: UserProfile where
  "tallCandidate = candidateProfile \<lparr> personalInfo := sparseInfo \<lparr> height := Some 180 \<rparr> \<rparr>"

definition defaultConfig :: PreferenceFilteringConfig where
  "defaultConfig = \<lparr> enableDealBreakerFiltering = True, scoringAlgorithm = ''weighted_average'' \<rparr>"

definition defaultMatchingConfig :: MatchingConfig where
  "defaultMatchingConfig = \<lparr> maxRadius = 100, maxResults = 50 \<rparr>"

definition sampleCriteria :: AdvancedMatchingCriteria where
  "sampleCriteria =
     \<lparr> criteria_userId = ''seeker'',
       criteria_preferences = \<lparr> ageRange = Some \<lparr> range_min = 21, range_max = 40 \<rparr>,
                                maxDistance = 25, bodyTypes = None \<rparr>,
       sort_by = ''compatibility'', sort_direction = ''desc'',
       preferenceWeights = weights_of 0.3 0.25 0.25 0.2,
       minimumThresholds = \<lparr> overall = Fin 0.6, min_physical = None, min_lifestyle = None,
                               min_social = None, min_relationship = None \<rparr>,
       dealBreakers = [''inactive_users''], mustHaves = [''nonsmoker''], niceToHaves = [] \<rparr>"

definition sampleAlignment :: PreferenceAlignment where
  "sampleAlignment =
     fst (analyzePreferenceMatch defaultConfig 0 (\<lambda>n. 0.5) 0 seekerProfile candidateProfile
            sampleCriteria)"




text \<open>
  Criteria that break both rules of the validation, criteria that break the distance rule
  alone, and a service with no cooldown recorded.
\<close>

definition badCriteria :: MatchingCriteria where
  "badCriteria =
     \<lparr> criteria_userId = ''seeker'',
       criteria_preferences = \<lparr> ageRange = Some \<lparr> range_min = 17, range_max = 120 \<rparr>,
                                maxDistance = 150, bodyTypes = None \<rparr>,
       sort_by = ''distance'', sort_direction = ''asc'' \<rparr>"

definition farCriteria :: MatchingCriteria where
  "farCriteria =
     \<lparr> criteria_userId = ''seeker'',
       criteria_preferences = \<lparr> ageRange = Some \<lparr> range_min = 21, range_max = 40 \<rparr>,
                                maxDistance = 150, bodyTypes = None \<rparr>,
       sort_by = ''distance'', sort_direction = ''asc'' \<rparr>"

definition noCooldowns :: "string \<rightharpoonup> int" where
  "noCooldowns = Map.empty"

section \<open>Properties of the aggregator\<close>









text \<open>
  C2. Under the \<open>multiplicative\<close> algorithm (the fourth root of the product of the four
  category scores), a category score that is exactly 0 makes the result exactly 0, whatever
  the other three scores and whatever the weights.
\<close>

theorem multiplicative_floor:
  assumes "0 \<le> score (physical cs) \<and> score (physical cs) \<le> 1"
      and "0 \<le> score (lifestyle cs) \<and> score (lifestyle cs) \<le> 1"
      and "0 \<le> score (social cs) \<and> score (social cs) \<le> 1"
      and "0 \<le> score (relationship cs) \<and> score (relationship cs) \<le> 1"
      and "score (physical cs) = 0 \<or> score (lifestyle cs) = 0 \<or>
           score (social cs) = 0 \<or> score (relationship cs) = 0"
  shows "calculateWeightedCompatibility ''multiplicative'' cs weights =
           Math_pow_quarter (Fin (score (physical cs) * score (lifestyle cs) *
                                  score (social cs) * score (relationship cs)))
       \<and> calculateWeightedCompatibility ''multiplicative'' cs weights = Fin 0"
  using assms(5) by (auto simp add: calculateWeightedCompatibility_def Let_def)

theorem multiplicative_floor_witness:
  "calculateWeightedCompatibility ''multiplicative'' (scores_of 1 0 0.9 0.8)
     (weights_of 0.3 0.25 0.25 0.2) = Fin 0"
  using multiplicative_floor [where cs = "scores_of 1 0 0.9 0.8"
      and weights = "weights_of 0.3 0.25 0.25 0.2"]
  by (simp add: scores_of_def)




section \<open>Properties of the threshold gate\<close>

lemma js_lt_raise:
  assumes "js_lt t t'" and "\<not> js_lt s t'"
  shows "\<not> js_lt s t"
  using assms by (cases s; cases t; cases t') auto

text \<open>
  C3. Raising \<open>thresholds.overall\<close> and leaving the per-category thresholds as they are
  can only shrink the set of accepted candidates: whoever passes under the higher overall
  threshold passes under the lower one.
\<close>

theorem threshold_monotone:
  assumes "js_lt (overall thresholds) higher"
  shows "(meetsMinimumThresholds pa (thresholds \<lparr> overall := higher \<rparr>) \<longrightarrow>
            meetsMinimumThresholds pa thresholds)
       \<and> set (filter (\<lambda>a. meetsMinimumThresholds a (thresholds \<lparr> overall := higher \<rparr>)) pas)
           \<subseteq> set (filter (\<lambda>a. meetsMinimumThresholds a thresholds) pas)"
proof -
  have one: "meetsMinimumThresholds a thresholds"
    if "meetsMinimumThresholds a (thresholds \<lparr> overall := higher \<rparr>)" for a
  proof -
    from that have "\<not> js_lt (totalScore a) higher"
      by (auto simp add: meetsMinimumThresholds_def split: if_splits)
    then have "\<not> js_lt (totalScore a) (overall thresholds)"
      using js_lt_raise [OF assms] by blast
    with that show ?thesis
      by (simp add: meetsMinimumThresholds_def Let_def split: if_splits)
  qed
  then show ?thesis by auto
qed

theorem threshold_monotone_witness:
  "js_lt (overall (minimumThresholds sampleCriteria)) (Fin 0.65)
   \<and> meetsMinimumThresholds sampleAlignment (minimumThresholds sampleCriteria \<lparr> overall := Fin 0.65 \<rparr>)
   \<and> meetsMinimumThresholds sampleAlignment (minimumThresholds sampleCriteria)"
proof -
  have raise: "js_lt (overall (minimumThresholds sampleCriteria)) (Fin 0.65)"
    by (simp add: sampleCriteria_def)
  have total: "totalScore sampleAlignment = Fin 0.695"
    by (simp add: sampleAlignment_def analyzePreferenceMatch_def Let_def split_def
        analyzePreferenceMatches_def defaultConfig_def sampleCriteria_def
        calculateWeightedCompatibility_def weightedAverage_def weights_of_def
        calculateCategoryScores_def calculatePhysicalScore_def calculateLifestyleScore_def
        calculateSocialScore_def calculateRelationshipScore_def
        calculateBodyTypeCompatibility_def calculateHeightCompatibility_def
        calculateAgeCompatibility_def calculateAppearanceScore_def
        calculateSmokingCompatibility_def calculateDrinkingCompatibility_def
        calculateExerciseCompatibility_def calculateDietCompatibility_def
        calculateSocialHabitsCompatibility_def calculateEducationCompatibility_def
        calculateOccupationCompatibility_def calculateInterestsCompatibility_def
        calculateLanguageCompatibility_def calculateRelationshipTypeCompatibility_def
        calculateSexualOrientationCompatibility_def calculateCommitmentCompatibility_def
        calculateFamilyGoalsCompatibility_def seekerProfile_def candidateProfile_def
        sparseInfo_def preferredBodyTypes_def preferredAgeRange_def lifestyle_field_def
        str_or_def or_empty_def some_included_def)
  have high: "meetsMinimumThresholds sampleAlignment
                (minimumThresholds sampleCriteria \<lparr> overall := Fin 0.65 \<rparr>)"
    by (simp add: meetsMinimumThresholds_def total sampleCriteria_def belowThreshold_def)
  show ?thesis
    using raise high threshold_monotone [OF raise, of sampleAlignment "[]"] by simp
qed

section \<open>Properties of the deal breakers\<close>

lemma anyTriggered_iff:
  "anyTriggered now u c ds = list_ex (isDealBreakerTriggered now u c) ds"
  by (induction ds) simp_all

lemma inactive_missing:
  "lastActiveAt c = None \<Longrightarrow> isDealBreakerTriggered now u c ''inactive_users''"
  by (simp add: isDealBreakerTriggered_def daysSince_def)

lemma new_missing:
  "createdAt c = None \<Longrightarrow> \<not> isDealBreakerTriggered now u c ''new_profiles''"
  by (simp add: isDealBreakerTriggered_def daysSince_def)

text \<open>
  C5, as the code has it. The \<open>height_mismatch\<close> deal breaker triggers exactly when the
  absolute difference of the two heights exceeds 20 cm, a missing height being read as 0.
  So when exactly one side's height is missing it triggers exactly when the other height
  exceeds 20 cm in absolute value, and when both are missing it does not trigger.
\<close>

theorem height_mismatch_rule:
  "isDealBreakerTriggered now u c ''height_mismatch'' = (\<bar>heightOrZero u - heightOrZero c\<bar> > 20)
   \<and> (height (personalInfo u) = None \<and> height (personalInfo c) = Some h \<longrightarrow>
        isDealBreakerTriggered now u c ''height_mismatch'' = (\<bar>h\<bar> > 20))
   \<and> (height (personalInfo u) = Some h \<and> height (personalInfo c) = None \<longrightarrow>
        isDealBreakerTriggered now u c ''height_mismatch'' = (\<bar>h\<bar> > 20))
   \<and> (height (personalInfo u) = None \<and> height (personalInfo c) = None \<longrightarrow>
        \<not> isDealBreakerTriggered now u c ''height_mismatch'')"
  by (auto simp add: isDealBreakerTriggered_def heightOrZero_def num_or_def Let_def
      split: option.splits)

theorem height_mismatch_rule_witness:
  "isDealBreakerTriggered 0 seekerProfile tallCandidate ''height_mismatch''
   \<and> \<not> isDealBreakerTriggered 0 tallCandidate tallCandidate ''height_mismatch''"
  using height_mismatch_rule [of 0 seekerProfile tallCandidate 180]
    height_mismatch_rule [of 0 tallCandidate tallCandidate 180]
  by (simp add: heightOrZero_def seekerProfile_def tallCandidate_def candidateProfile_def
      sparseInfo_def)

text \<open>
  C5 as stated fails: with the height missing on both sides the difference is 0 and the
  deal breaker does not trigger.
\<close>

theorem height_missing_both_not_triggered:
  "height (personalInfo seekerProfile) = None \<and> height (personalInfo candidateProfile) = None
   \<and> \<not> isDealBreakerTriggered 0 seekerProfile candidateProfile ''height_mismatch''"
  by (simp add: isDealBreakerTriggered_def num_or_def seekerProfile_def candidateProfile_def
      sparseInfo_def)

text \<open>
  C10. A candidate with no \<open>lastActiveAt\<close> always triggers \<open>inactive_users\<close> (the days
  since the last activity default to 999, more than 14), and a candidate with no
  \<open>createdAt\<close> never triggers \<open>new_profiles\<close> (999 is not less than 1). Hence a candidate
  with neither timestamp is removed by the deal-breaker filter whenever \<open>inactive_users\<close>
  is among the deal breakers in force, and \<open>new_profiles\<close> never removes it: listing
  \<open>new_profiles\<close> or not makes no difference for this candidate.
\<close>

theorem missing_timestamps_asymmetry:
  "(lastActiveAt c = None \<longrightarrow>
      daysSince now (lastActiveAt c) = 999 \<and> isDealBreakerTriggered now u c ''inactive_users'')
   \<and> (createdAt c = None \<longrightarrow>
      daysSince now (createdAt c) = 999 \<and> \<not> isDealBreakerTriggered now u c ''new_profiles'')
   \<and> (lastActiveAt c = None \<and> createdAt c = None \<and> enableDealBreakerFiltering config \<and>
      ''inactive_users'' \<in> set ds \<longrightarrow>
        c \<notin> set (applyDealBreakerFilters config now u cs ds))
   \<and> (lastActiveAt c = None \<and> createdAt c = None \<and> c \<in> set cs \<longrightarrow>
        c \<in> set (applyDealBreakerFilters config now u cs [''new_profiles'']))
   \<and> (createdAt c = None \<longrightarrow>
        (c \<in> set (applyDealBreakerFilters config now u cs ds)) =
        (c \<in> set (applyDealBreakerFilters config now u cs (removeAll ''new_profiles'' ds))))"
proof (intro conjI impI)
  assume "lastActiveAt c = None"
  then show "daysSince now (lastActiveAt c) = 999" by (simp add: daysSince_def)
next
  assume "lastActiveAt c = None"
  then show "isDealBreakerTriggered now u c ''inactive_users''" by (rule inactive_missing)
next
  assume "createdAt c = None"
  then show "daysSince now (createdAt c) = 999" by (simp add: daysSince_def)
next
  assume "createdAt c = None"
  then show "\<not> isDealBreakerTriggered now u c ''new_profiles''" by (rule new_missing)
next
  assume a: "lastActiveAt c = None \<and> createdAt c = None \<and> enableDealBreakerFiltering config \<and>
      ''inactive_users'' \<in> set ds"
  then have "isDealBreakerTriggered now u c ''inactive_users''" by (simp add: inactive_missing)
  with a have "anyTriggered now u c ds" by (auto simp add: anyTriggered_iff list_ex_iff)
  moreover from a have "ds \<noteq> []" by auto
  ultimately show "c \<notin> set (applyDealBreakerFilters config now u cs ds)"
    using a by (simp add: applyDealBreakerFilters_def)
next
  assume a: "lastActiveAt c = None \<and> createdAt c = None \<and> c \<in> set cs"
  then have "\<not> anyTriggered now u c [''new_profiles'']" by (simp add: new_missing)
  with a show "c \<in> set (applyDealBreakerFilters config now u cs [''new_profiles''])"
    by (simp add: applyDealBreakerFilters_def)
next
  assume a: "createdAt c = None"
  then have n: "\<not> isDealBreakerTriggered now u c ''new_profiles''" by (rule new_missing)
  have "anyTriggered now u c ds = anyTriggered now u c (removeAll ''new_profiles'' ds)"
    using n by (auto simp add: anyTriggered_iff list_ex_iff)
  then show "(c \<in> set (applyDealBreakerFilters config now u cs ds)) =
        (c \<in> set (applyDealBreakerFilters config now u cs (removeAll ''new_profiles'' ds)))"
    by (auto simp add: applyDealBreakerFilters_def)
qed

theorem missing_timestamps_asymmetry_witness:
  "isDealBreakerTriggered 0 seekerProfile candidateProfile ''inactive_users''
   \<and> \<not> isDealBreakerTriggered 0 seekerProfile candidateProfile ''new_profiles''
   \<and> candidateProfile \<notin> set (applyDealBreakerFilters defaultConfig 0 seekerProfile
        [candidateProfile] [''smoking'', ''inactive_users''])
   \<and> candidateProfile \<in> set (applyDealBreakerFilters defaultConfig 0 seekerProfile
        [candidateProfile] [''new_profiles''])"
  using missing_timestamps_asymmetry [of candidateProfile 0 seekerProfile defaultConfig
      "[''smoking'', ''inactive_users'']" "[candidateProfile]"]
  by (simp add: candidateProfile_def defaultConfig_def)

section \<open>Properties of the scorers\<close>




















section \<open>Randomness and the scoring path\<close>




section \<open>Properties of the ranking\<close>







section \<open>Properties of the validation\<close>

text \<open>
  C8, as the code has it. When the user is not on cooldown and the criteria break a rule,
  \<open>findMatches\<close> fails with a plain \<open>Error\<close> that carries the message of the first
  failed check alone: the distance message whenever \<open>maxDistance\<close> exceeds \<open>maxRadius\<close>,
  whether the age range is valid or not, and \<open>Invalid age range\<close> only when the distance
  is within the maximum.
\<close>

theorem validation_reports_first_violation:
  assumes "\<not> isUserOnCooldown userCooldowns now uid"
  shows "(maxDistance (criteria_preferences criteria) > maxRadius config \<longrightarrow>
            findMatches config userCooldowns now uid criteria continue =
              Inl (Error [Lit ''Maximum distance cannot exceed '', Num (maxRadius config),
                          Lit ''km'']))
       \<and> (maxDistance (criteria_preferences criteria) \<le> maxRadius config \<and>
          ageRange (criteria_preferences criteria) = Some r \<and>
          (range_min r < 18 \<or> range_max r > 99) \<longrightarrow>
            findMatches config userCooldowns now uid criteria continue =
              Inl (Error [Lit ''Invalid age range'']))"
  using assms by (auto simp add: findMatches_def validateMatchingCriteria_def)

theorem validation_reports_first_violation_witness:
  "findMatches defaultMatchingConfig noCooldowns 0 ''seeker'' badCriteria (Inr ()) =
     Inl (Error [Lit ''Maximum distance cannot exceed '', Num 100, Lit ''km''])"
  using validation_reports_first_violation [where userCooldowns = noCooldowns and now = 0
      and uid = "''seeker''" and criteria = badCriteria and config = defaultMatchingConfig
      and continue = "Inr ()"]
  by (simp add: isUserOnCooldown_def noCooldowns_def badCriteria_def defaultMatchingConfig_def)

text \<open>
  C8 as stated fails: criteria that break both the distance rule and the age-range rule
  get the very error that criteria breaking the distance rule alone get, a plain \<open>Error\<close>
  whose message names the distance and nothing else.
\<close>

theorem second_violation_not_reported:
  "maxDistance (criteria_preferences badCriteria) > maxRadius defaultMatchingConfig
   \<and> range_min (the (ageRange (criteria_preferences badCriteria))) < 18
   \<and> findMatches defaultMatchingConfig noCooldowns 0 ''seeker'' badCriteria (Inr ()) =
       Inl (Error [Lit ''Maximum distance cannot exceed '', Num 100, Lit ''km''])
   \<and> findMatches defaultMatchingConfig noCooldowns 0 ''seeker'' farCriteria (Inr ()) =
       findMatches defaultMatchingConfig noCooldowns 0 ''seeker'' badCriteria (Inr ())"
  by (simp add: findMatches_def validateMatchingCriteria_def isUserOnCooldown_def
      noCooldowns_def badCriteria_def farCriteria_def defaultMatchingConfig_def)

end
